theory Spec2Isabelle
  imports Complex_Main "HOL-Library.Word"
begin

section \<open>The whisper bridge: data model\<close>

text \<open>
  Shallow embedding of \<^verbatim>\<open>whisper_bridge.cpp\<close>. The speech engine (whisper.cpp) is an
  external collaborator: its state is a type parameter \<open>'e\<close> and its entry points are
  the fields of the record \<open>engine\<close>. Audio samples are values of a type parameter
  \<open>'s\<close>. A C pointer to a block of memory is a function from offsets to values, wrapped
  in an option where the code tests the pointer against null. A callback and its user
  data are opaque pointers, identified by a number.
\<close>

type_synonym callback = nat
type_synonym user_data = nat

text \<open>The fields of \<^verbatim>\<open>whisper_full_params\<close> that \<^verbatim>\<open>make_params\<close> assigns.\<close>

record whisper_full_params =
  p_n_threads :: int
  no_context :: bool
  single_segment :: bool
  print_special :: bool
  print_progress :: bool
  print_realtime :: bool
  print_timestamps :: bool
  translate :: bool
  no_timestamps :: bool
  p_language :: "string option"
  detect_language :: bool
  greedy_best_of :: int

text \<open>
  The engine's entry points. \<open>whisper_full\<close> receives the engine state, the parameters,
  the sample memory and the sample count handed over, and returns its status together
  with the new engine state; a missing segment text (a null pointer) is \<open>None\<close>.
\<close>

record ('e, 's) engine =
  whisper_init_from_file_with_params :: "string \<Rightarrow> bool \<Rightarrow> 'e option"
  whisper_full :: "'e \<Rightarrow> whisper_full_params \<Rightarrow> 's list \<Rightarrow> int \<Rightarrow> int \<times> 'e"
  whisper_full_n_segments :: "'e \<Rightarrow> int"
  whisper_full_get_segment_text :: "'e \<Rightarrow> int \<Rightarrow> string option"
  whisper_full_lang_id :: "'e \<Rightarrow> int"
  whisper_lang_id :: "string \<Rightarrow> int"

record ('e, 's) whisper_bridge_context =
  wctx :: 'e
  language :: string
  n_threads :: int
  streaming :: bool
  stream_buffer :: "'s list"
  stream_callback :: "callback option"
  stream_user_data :: "user_data option"
  stream_step_samples :: int
  last_result_text :: string

record whisper_bridge_result =
  "text" :: string
  segments :: int
  lang_id :: int
  lang_prob :: rat
  duration_ms :: int

text \<open>
  What an operation does to the outside world, in the order it does it: a call of the
  engine's inference entry point (with its parameters, the memory handed over and the
  sample count) and a call of the segment callback (function pointer, text,
  \<open>is_partial\<close>, user data).
\<close>

datatype 's event =
  Inference whisper_full_params "'s list" int
| Callback callback string int "user_data option"

text \<open>The constructor of the context; the engine handle is stored right after it.\<close>

definition new_context :: "'e \<Rightarrow> ('e, 's) whisper_bridge_context" where
  "new_context w =
     \<lparr> wctx = w, language = ''auto'', n_threads = 4, streaming = False,
       stream_buffer = [], stream_callback = None, stream_user_data = None,
       stream_step_samples = 16000 * 2, last_result_text = [] \<rparr>"

text \<open>
  \<^verbatim>\<open>static_cast<int32_t>\<close> of a \<^verbatim>\<open>size_t\<close>: the value modulo \<open>2 ^ 32\<close>, read as two's
  complement.
\<close>

definition to_int32 :: "nat \<Rightarrow> int" where
  "to_int32 n = (int n + 2 ^ 31) mod 2 ^ 32 - 2 ^ 31"

text \<open>Reading \<open>n\<close> values at a pointer.\<close>

definition read_block :: "(nat \<Rightarrow> 'a) \<Rightarrow> int \<Rightarrow> 'a list" where
  "read_block p n = map p [0..<nat n]"

text \<open>The indices a loop \<^verbatim>\<open>for (int i = 0; i < n; i++)\<close> visits.\<close>

definition loop_indices :: "int \<Rightarrow> int list" where
  "loop_indices n = map int [0..<nat n]"

section \<open>Helpers\<close>

definition make_params :: "('e, 's) whisper_bridge_context \<Rightarrow> whisper_full_params" where
  "make_params ctx =
     \<lparr> p_n_threads = n_threads ctx,
       no_context = True,
       single_segment = False,
       print_special = False,
       print_progress = False,
       print_realtime = False,
       print_timestamps = False,
       translate = False,
       no_timestamps = True,
       p_language = (if language ctx = ''auto'' then None else Some (language ctx)),
       detect_language = (language ctx = ''auto''),
       greedy_best_of = 1 \<rparr>"

text \<open>The loop of \<^verbatim>\<open>make_result\<close> over the segment indices, on the text built so far.\<close>

fun join_segments :: "('e, 's) engine \<Rightarrow> 'e \<Rightarrow> string \<Rightarrow> int list \<Rightarrow> string" where
  "join_segments eng w acc [] = acc"
| "join_segments eng w acc (i # is) =
     (case whisper_full_get_segment_text eng w i of
        Some seg_text \<Rightarrow>
          join_segments eng w ((if acc \<noteq> [] then acc @ '' '' else acc) @ seg_text) is
      | None \<Rightarrow> join_segments eng w acc is)"

definition make_result ::
  "('e, 's) engine \<Rightarrow> ('e, 's) whisper_bridge_context \<Rightarrow> int \<Rightarrow> int \<Rightarrow> rat \<Rightarrow> int \<Rightarrow>
   whisper_bridge_result \<times> ('e, 's) whisper_bridge_context" where
  "make_result eng ctx n_segments lid lprob dur =
     (let ctx' = ctx\<lparr>last_result_text :=
                   join_segments eng (wctx ctx) [] (loop_indices n_segments)\<rparr>
      in (\<lparr> text = last_result_text ctx', segments = n_segments, lang_id = lid,
             lang_prob = lprob, duration_ms = dur \<rparr>, ctx'))"

definition empty_result :: whisper_bridge_result where
  "empty_result = \<lparr> text = [], segments = 0, lang_id = -1, lang_prob = 0, duration_ms = 0 \<rparr>"

text \<open>
  The callback loop shared by \<^verbatim>\<open>whisper_bridge_stream_push\<close> and
  \<^verbatim>\<open>whisper_bridge_stream_stop\<close>: the callback runs for a segment when its text and
  the callback pointer are both non-null.
\<close>

fun fire_callbacks ::
  "('e, 's) engine \<Rightarrow> 'e \<Rightarrow> callback option \<Rightarrow> user_data option \<Rightarrow> int list \<Rightarrow> 's event list"
where
  "fire_callbacks eng w cb ud [] = []"
| "fire_callbacks eng w cb ud (i # is) =
     (case (whisper_full_get_segment_text eng w i, cb) of
        (Some txt, Some f) \<Rightarrow> Callback f txt 0 ud # fire_callbacks eng w cb ud is
      | _ \<Rightarrow> fire_callbacks eng w cb ud is)"

section \<open>Lifecycle and configuration\<close>

definition whisper_bridge_init ::
  "('e, 's) engine \<Rightarrow> string option \<Rightarrow> ('e, 's) whisper_bridge_context option" where
  "whisper_bridge_init eng model_path =
     (case model_path of
        None \<Rightarrow> None
      | Some path \<Rightarrow>
          (case whisper_init_from_file_with_params eng path True of
             None \<Rightarrow> None
           | Some w \<Rightarrow> Some (new_context w)))"

definition whisper_bridge_set_language ::
  "('e, 's) engine \<Rightarrow> ('e, 's) whisper_bridge_context option \<Rightarrow> string option \<Rightarrow>
   int \<times> ('e, 's) whisper_bridge_context option" where
  "whisper_bridge_set_language eng ctxo lang =
     (case (ctxo, lang) of
        (Some ctx, Some l) \<Rightarrow>
          if l = ''auto'' then (0, Some (ctx\<lparr>language := ''auto''\<rparr>))
          else if whisper_lang_id eng l < 0 then (-1, ctxo)
          else (0, Some (ctx\<lparr>language := l\<rparr>))
      | _ \<Rightarrow> (-1, ctxo))"

definition whisper_bridge_set_threads ::
  "('e, 's) whisper_bridge_context option \<Rightarrow> int \<Rightarrow> ('e, 's) whisper_bridge_context option" where
  "whisper_bridge_set_threads ctxo n =
     (case ctxo of
        None \<Rightarrow> None
      | Some ctx \<Rightarrow> Some (ctx\<lparr>n_threads := (if n > 0 then n else 4)\<rparr>))"

section \<open>Batch transcription\<close>

text \<open>
  The wall-clock time measured around the inference call is an input of the model
  (\<open>elapsed\<close>, in milliseconds).
\<close>

definition whisper_bridge_transcribe ::
  "('e, 's) engine \<Rightarrow> ('e, 's) whisper_bridge_context option \<Rightarrow> (nat \<Rightarrow> 's) option \<Rightarrow> int \<Rightarrow>
   int \<Rightarrow> whisper_bridge_result \<times> ('e, 's) whisper_bridge_context option \<times> 's event list" where
  "whisper_bridge_transcribe eng ctxo audio_data audio_len elapsed =
     (case (ctxo, audio_data) of
        (Some ctx, Some mem) \<Rightarrow>
          if audio_len \<le> 0 then (empty_result, ctxo, [])
          else
            let params = make_params ctx;
                block = read_block mem audio_len;
                (ret, w') = whisper_full eng (wctx ctx) params block audio_len;
                ctx1 = ctx\<lparr>wctx := w'\<rparr>;
                ev = [Inference params block audio_len]
            in if ret \<noteq> 0 then (empty_result, Some ctx1, ev)
               else
                 let n_seg = whisper_full_n_segments eng w';
                     lid = whisper_full_lang_id eng w';
                     (res, ctx2) = make_result eng ctx1 n_seg lid 0 elapsed
                 in (res, Some ctx2, ev)
      | _ \<Rightarrow> (empty_result, ctxo, []))"

section \<open>Streaming\<close>

definition whisper_bridge_stream_start ::
  "('e, 's) whisper_bridge_context option \<Rightarrow> callback option \<Rightarrow> user_data option \<Rightarrow>
   int \<times> ('e, 's) whisper_bridge_context option" where
  "whisper_bridge_stream_start ctxo cb ud =
     (case (ctxo, cb) of
        (Some ctx, Some f) \<Rightarrow>
          (0, Some (ctx\<lparr>streaming := True, stream_callback := Some f,
                        stream_user_data := ud, stream_buffer := []\<rparr>))
      | _ \<Rightarrow> (-1, ctxo))"

definition whisper_bridge_stream_push ::
  "('e, 's) engine \<Rightarrow> ('e, 's) whisper_bridge_context option \<Rightarrow> (nat \<Rightarrow> 's) option \<Rightarrow> int \<Rightarrow>
   int \<times> ('e, 's) whisper_bridge_context option \<times> 's event list" where
  "whisper_bridge_stream_push eng ctxo audio_data audio_len =
     (case (ctxo, audio_data) of
        (Some ctx, Some mem) \<Rightarrow>
          if audio_len \<le> 0 then (-1, ctxo, [])
          else if \<not> streaming ctx then (-1, ctxo, [])
          else
            let buf = stream_buffer ctx @ read_block mem audio_len in
            if to_int32 (length buf) \<ge> stream_step_samples ctx then
              let params = (make_params ctx)\<lparr>single_segment := True\<rparr>;
                  (ret, w') = whisper_full eng (wctx ctx) params buf (to_int32 (length buf));
                  calls = (if ret = 0
                           then fire_callbacks eng w' (stream_callback ctx) (stream_user_data ctx)
                                  (loop_indices (whisper_full_n_segments eng w'))
                           else []);
                  keep = 16000 div 2;
                  buf' = (if to_int32 (length buf) > keep
                          then drop (length buf - nat keep) buf else buf)
              in (0, Some (ctx\<lparr>wctx := w', stream_buffer := buf'\<rparr>),
                  Inference params buf (to_int32 (length buf)) # calls)
            else (0, Some (ctx\<lparr>stream_buffer := buf\<rparr>), [])
      | _ \<Rightarrow> (-1, ctxo, []))"

definition whisper_bridge_stream_stop ::
  "('e, 's) engine \<Rightarrow> ('e, 's) whisper_bridge_context option \<Rightarrow> int \<Rightarrow>
   whisper_bridge_result \<times> ('e, 's) whisper_bridge_context option \<times> 's event list" where
  "whisper_bridge_stream_stop eng ctxo elapsed =
     (case ctxo of
        None \<Rightarrow> (empty_result, None, [])
      | Some ctx0 \<Rightarrow>
          let ctx = ctx0\<lparr>streaming := False\<rparr>;
              cleared = (\<lambda>c. c\<lparr>stream_buffer := [], stream_callback := None,
                               stream_user_data := None\<rparr>)
          in if stream_buffer ctx \<noteq> [] then
               let params = make_params ctx;
                   buf = stream_buffer ctx;
                   (ret, w') = whisper_full eng (wctx ctx) params buf (to_int32 (length buf));
                   ctx1 = ctx\<lparr>wctx := w'\<rparr>;
                   ev = [Inference params buf (to_int32 (length buf))]
               in if ret = 0 then
                    let n_seg = whisper_full_n_segments eng w';
                        lid = whisper_full_lang_id eng w';
                        calls = fire_callbacks eng w' (stream_callback ctx1)
                                  (stream_user_data ctx1) (loop_indices n_seg);
                        (res, ctx2) = make_result eng (cleared ctx1) n_seg lid 0 elapsed
                    in (res, Some ctx2, ev @ calls)
                  else (empty_result, Some (cleared ctx1), ev)
             else (empty_result, Some (cleared ctx), []))"

section \<open>Utilities\<close>

text \<open>
  Single-precision arithmetic. A \<^verbatim>\<open>float\<close> is a finite value, held as the rational
  number it denotes, or not finite (an infinity or a NaN). Every operation computes
  the exact result and rounds it to the nearest representable value, ties to the even
  significand: the spacing of the representable values around \<open>q\<close> is \<open>2 ^ j\<close> for
  the least \<open>j\<close> from \<open>-149\<close> (the subnormal spacing) with \<open>\<bar>q\<bar> < 2 ^ (j + 24)\<close>,
  and a result of magnitude \<open>2 ^ 128\<close> or more is an infinity. The sign of a zero is
  not kept.
\<close>

datatype float32 = Finite rat | NotFinite

definition round_half_even :: "rat \<Rightarrow> int" where
  "round_half_even x =
     (let f = \<lfloor>x\<rfloor>; d = x - of_int f
      in if d < 1 / 2 then f
         else if 1 / 2 < d then f + 1
         else if even f then f else f + 1)"

fun ulp_search :: "rat \<Rightarrow> int \<Rightarrow> nat \<Rightarrow> int option" where
  "ulp_search q j 0 = None"
| "ulp_search q j (Suc n) =
     (if \<bar>q\<bar> < 2 powi (j + 24) then Some j else ulp_search q (j + 1) n)"

definition f32_round :: "rat \<Rightarrow> float32" where
  "f32_round q =
     (case ulp_search q (- 149) 254 of
        None \<Rightarrow> NotFinite
      | Some j \<Rightarrow>
          let r = of_int (round_half_even (q / 2 powi j)) * 2 powi j
          in if \<bar>r\<bar> < 2 powi 128 then Finite r else NotFinite)"

text \<open>\<^verbatim>\<open>static_cast<float>\<close> of an integer, and the division of two floats.\<close>

definition f32_of_int :: "int \<Rightarrow> float32" where
  "f32_of_int m = f32_round (of_int m)"

definition f32_div :: "float32 \<Rightarrow> float32 \<Rightarrow> float32" where
  "f32_div a b =
     (case (a, b) of
        (Finite x, Finite y) \<Rightarrow> if y = 0 then NotFinite else f32_round (x / y)
      | _ \<Rightarrow> NotFinite)"

text \<open>
  The conversion loop writes \<open>dst[i]\<close> for the indices it visits; the destination
  memory is returned updated. The call does nothing under a null pointer or a count
  that is not positive.
\<close>

fun pcm16_loop ::
  "(nat \<Rightarrow> 16 word) \<Rightarrow> (nat \<Rightarrow> float32) \<Rightarrow> nat list \<Rightarrow> (nat \<Rightarrow> float32)" where
  "pcm16_loop src dst [] = dst"
| "pcm16_loop src dst (i # is) =
     pcm16_loop src (dst(i := f32_div (f32_of_int (sint (src i))) (Finite 32768))) is"

definition whisper_bridge_pcm16_to_f32 ::
  "(nat \<Rightarrow> 16 word) option \<Rightarrow> (nat \<Rightarrow> float32) option \<Rightarrow> int \<Rightarrow> (nat \<Rightarrow> float32) option"
where
  "whisper_bridge_pcm16_to_f32 src dst n =
     (case (src, dst) of
        (Some s, Some d) \<Rightarrow> if n \<le> 0 then dst else Some (pcm16_loop s d [0..<nat n])
      | _ \<Rightarrow> dst)"

section \<open>Sequences of pushes, and a scripted engine\<close>

text \<open>
  A concrete engine for evaluating the bridge on explicit inputs: its state is the list
  of segment texts of the last inference, every inference returns the given status and
  produces the given texts, and two language codes are known.
\<close>

definition scripted_engine :: "int \<Rightarrow> string option list \<Rightarrow> (string option list, rat) engine" where
  "scripted_engine status texts =
     \<lparr> whisper_init_from_file_with_params =
         (\<lambda>path use_gpu. if path = ''ggml-base.bin'' then Some [] else None),
       whisper_full = (\<lambda>w params samples n. (status, texts)),
       whisper_full_n_segments = (\<lambda>w. int (length w)),
       whisper_full_get_segment_text =
         (\<lambda>w i. if 0 \<le> i \<and> i < int (length w) then w ! nat i else None),
       whisper_full_lang_id = (\<lambda>w. 0),
       whisper_lang_id = (\<lambda>l. if l = ''en'' then 0 else if l = ''es'' then 2 else -1) \<rparr>"



text \<open>A block of caller memory holding silence.\<close>

definition silence :: "nat \<Rightarrow> rat" where
  "silence i = 0"

text \<open>A session on which streaming has been started with callback 1 and user data 2.\<close>

definition started_context :: "(string option list, rat) whisper_bridge_context" where
  "started_context =
     (new_context [])\<lparr>streaming := True, stream_callback := Some 1, stream_user_data := Some 2\<rparr>"

text \<open>
  A push is a pointer and a sample count. \<open>pushed_block\<close> is the block of samples the
  push hands over (none under a null pointer or a count that is not positive),
  \<open>push_status\<close> the status of a push that passes the argument check, and
  \<open>stream_push_all\<close> runs a sequence of pushes one after the other, collecting the
  statuses and the events.
\<close>

definition pushed_block :: "(nat \<Rightarrow> 's) option \<times> int \<Rightarrow> 's list" where
  "pushed_block pn = (case fst pn of None \<Rightarrow> [] | Some mem \<Rightarrow> read_block mem (snd pn))"

definition push_status :: "(nat \<Rightarrow> 's) option \<times> int \<Rightarrow> int" where
  "push_status pn = (if fst pn \<noteq> None \<and> snd pn > 0 then 0 else -1)"

fun stream_push_all ::
  "('e, 's) engine \<Rightarrow> ('e, 's) whisper_bridge_context option \<Rightarrow>
   ((nat \<Rightarrow> 's) option \<times> int) list \<Rightarrow>
   int list \<times> ('e, 's) whisper_bridge_context option \<times> 's event list" where
  "stream_push_all eng ctxo [] = ([], ctxo, [])"
| "stream_push_all eng ctxo (pn # pns) =
     (let (r, ctxo1, ev1) = whisper_bridge_stream_push eng ctxo (fst pn) (snd pn);
          (rs, ctxo2, ev2) = stream_push_all eng ctxo1 pns
      in (r # rs, ctxo2, ev1 @ ev2))"

text \<open>
  Joining texts with one space between neighbours, and the non-null texts of the
  segments the engine holds, in segment order.
\<close>

fun join_with_space :: "string list \<Rightarrow> string" where
  "join_with_space [] = []"
| "join_with_space [t] = t"
| "join_with_space (t # u # ts) = t @ '' '' @ join_with_space (u # ts)"

definition segment_texts :: "('e, 's) engine \<Rightarrow> 'e \<Rightarrow> string list" where
  "segment_texts eng w =
     List.map_filter (whisper_full_get_segment_text eng w)
       (loop_indices (whisper_full_n_segments eng w))"

text \<open>A block of three 16-bit samples (then the minimum repeated), and a destination.\<close>

definition pcm_block :: "nat \<Rightarrow> 16 word" where
  "pcm_block i = (if i = 0 then 0 else if i = 1 then 32767 else - 32768)"

definition unwritten :: "nat \<Rightarrow> float32" where
  "unwritten i = NotFinite"

section \<open>Basic facts\<close>

lemma to_int32_small: "n < 2 ^ 31 \<Longrightarrow> to_int32 n = int n"
  by (simp add: to_int32_def)

lemma to_int32_ge_imp:
  assumes "k \<le> to_int32 n" and "0 \<le> k"
  shows "k \<le> int n"
proof -
  have "(int n + 2 ^ 31) mod 2 ^ 32 \<le> int n + 2 ^ 31"
    by (rule zmod_le_nonneg_dividend) simp
  with assms show ?thesis
    unfolding to_int32_def by linarith
qed

lemma length_read_block [simp]: "length (read_block p n) = nat n"
  by (simp add: read_block_def)

lemma read_block_nonpos [simp]: "n \<le> 0 \<Longrightarrow> read_block p n = []"
  by (simp add: read_block_def)

lemma map_silence: "map silence xs = replicate (length xs) 0"
  by (induction xs) (simp_all add: silence_def)

lemma read_block_silence: "read_block silence n = replicate (nat n) 0"
  by (simp add: read_block_def map_silence)

lemma to_int32_numeral_small [simp]:
  "to_int32 32000 = 32000" "to_int32 31999 = 31999" "to_int32 8000 = 8000"
  by (simp_all add: to_int32_def)

lemma to_int32_ge_length:
  assumes "32000 \<le> to_int32 n"
  shows "32000 \<le> n"
  using to_int32_ge_imp [OF assms] by simp

text \<open>
  What init and start leave behind, and the step, which no operation changes. The
  session \<open>started_context\<close> is what init and start produce on the scripted engine.
\<close>

lemma init_context:
  "whisper_bridge_init eng model_path = Some ctx \<Longrightarrow>
   stream_step_samples ctx = 32000 \<and> \<not> streaming ctx \<and> stream_buffer ctx = []
   \<and> language ctx = ''auto''"
  by (auto simp: whisper_bridge_init_def new_context_def split: option.splits)

lemma stream_start_context:
  "whisper_bridge_stream_start (Some ctx) (Some f) ud
   = (0, Some (ctx\<lparr>streaming := True, stream_callback := Some f,
                   stream_user_data := ud, stream_buffer := []\<rparr>))"
  by (simp add: whisper_bridge_stream_start_def)

lemma started_context_from_code:
  "whisper_bridge_init (scripted_engine 0 []) (Some ''ggml-base.bin'') = Some (new_context [])"
  "whisper_bridge_stream_start (Some (new_context [])) (Some 1) (Some 2)
   = (0, Some started_context)"
  by (simp_all add: whisper_bridge_init_def scripted_engine_def whisper_bridge_stream_start_def
      started_context_def new_context_def)

lemma step_samples_unchanged:
  "snd (whisper_bridge_set_language eng (Some ctx) lang) = Some c \<Longrightarrow>
     stream_step_samples c = stream_step_samples ctx"
  "whisper_bridge_set_threads (Some ctx) n = Some c \<Longrightarrow>
     stream_step_samples c = stream_step_samples ctx"
  "snd (whisper_bridge_stream_start (Some ctx) cb ud) = Some c \<Longrightarrow>
     stream_step_samples c = stream_step_samples ctx"
  "fst (snd (whisper_bridge_stream_push eng (Some ctx) p len)) = Some c \<Longrightarrow>
     stream_step_samples c = stream_step_samples ctx"
  "fst (snd (whisper_bridge_stream_stop eng (Some ctx) elapsed)) = Some c \<Longrightarrow>
     stream_step_samples c = stream_step_samples ctx"
  "fst (snd (whisper_bridge_transcribe eng (Some ctx) p len elapsed)) = Some c \<Longrightarrow>
     stream_step_samples c = stream_step_samples ctx"
  by (auto simp: whisper_bridge_set_language_def whisper_bridge_set_threads_def
      whisper_bridge_stream_start_def whisper_bridge_stream_push_def
      whisper_bridge_stream_stop_def whisper_bridge_transcribe_def make_result_def Let_def
      split: option.splits if_splits prod.splits)

text \<open>With a callback installed, the callback loop calls it on the non-null texts, in order.\<close>

lemma fire_callbacks_Some:
  "fire_callbacks eng w (Some f) ud is
   = map (\<lambda>t. Callback f t 0 ud) (List.map_filter (whisper_full_get_segment_text eng w) is)"
  by (induction "is") (auto split: option.splits)

text \<open>A push that stays below the step only appends.\<close>

lemma push_below_threshold:
  assumes "streaming ctx"
    and "int (length (stream_buffer ctx @ pushed_block pn)) < stream_step_samples ctx"
    and "stream_step_samples ctx \<le> 2 ^ 31"
  shows "whisper_bridge_stream_push eng (Some ctx) (fst pn) (snd pn)
         = (push_status pn, Some (ctx\<lparr>stream_buffer := stream_buffer ctx @ pushed_block pn\<rparr>), [])"
proof (cases "fst pn \<noteq> None \<and> snd pn > 0")
  case True
  then obtain mem where mem: "fst pn = Some mem" by auto
  have "length (stream_buffer ctx @ read_block mem (snd pn)) < 2 ^ 31"
    using assms(2,3) mem by (auto simp: pushed_block_def split: if_splits)
  then have "to_int32 (length (stream_buffer ctx @ read_block mem (snd pn)))
             = int (length (stream_buffer ctx @ read_block mem (snd pn)))"
    by (rule to_int32_small)
  with assms True mem show ?thesis
    by (simp add: whisper_bridge_stream_push_def pushed_block_def push_status_def Let_def)
next
  case False
  then show ?thesis
    by (auto simp: whisper_bridge_stream_push_def pushed_block_def push_status_def
        split: option.splits)
qed

lemma push_all_below_threshold:
  assumes "streaming ctx"
    and "int (length (stream_buffer ctx)) + int (length (concat (map pushed_block pns)))
         < stream_step_samples ctx"
    and "stream_step_samples ctx \<le> 2 ^ 31"
  shows "stream_push_all eng (Some ctx) pns
         = (map push_status pns,
            Some (ctx\<lparr>stream_buffer := stream_buffer ctx @ concat (map pushed_block pns)\<rparr>), [])"
  using assms
proof (induction pns arbitrary: ctx)
  case Nil
  then show ?case by simp
next
  case (Cons pn pns)
  let ?c = "ctx\<lparr>stream_buffer := stream_buffer ctx @ pushed_block pn\<rparr>"
  have one: "whisper_bridge_stream_push eng (Some ctx) (fst pn) (snd pn)
             = (push_status pn, Some ?c, [])"
    using Cons.prems by (intro push_below_threshold) auto
  have "stream_push_all eng (Some ?c) pns
        = (map push_status pns,
           Some (?c\<lparr>stream_buffer := stream_buffer ?c @ concat (map pushed_block pns)\<rparr>), [])"
    using Cons.prems by (intro Cons.IH) auto
  with one show ?case by simp
qed

text \<open>A push whose size test succeeds: one inference over the whole buffer, then the cut.\<close>

lemma push_flush_general:
  assumes "streaming ctx" and "0 < audio_len"
    and "stream_step_samples ctx = 32000"
    and "buf = stream_buffer ctx @ read_block mem audio_len"
    and "32000 \<le> to_int32 (length buf)"
    and "whisper_full eng (wctx ctx) ((make_params ctx)\<lparr>single_segment := True\<rparr>) buf
           (to_int32 (length buf)) = (ret, w')"
  shows "whisper_bridge_stream_push eng (Some ctx) (Some mem) audio_len
         = (0, Some (ctx\<lparr>wctx := w', stream_buffer := drop (length buf - 8000) buf\<rparr>),
            Inference ((make_params ctx)\<lparr>single_segment := True\<rparr>) buf (to_int32 (length buf))
            # (if ret = 0
               then fire_callbacks eng w' (stream_callback ctx) (stream_user_data ctx)
                      (loop_indices (whisper_full_n_segments eng w'))
               else []))"
  using assms by (simp add: whisper_bridge_stream_push_def Let_def)

text \<open>Below \<open>2 ^ 31\<close> samples a push leaves fewer than 32000 samples in the accumulator.\<close>

lemma push_keeps_buffer_below_step:
  assumes "stream_step_samples ctx = 32000"
    and "length (stream_buffer ctx) < 32000"
    and "audio_len < 2 ^ 31 - 32000"
    and "whisper_bridge_stream_push eng (Some ctx) p audio_len = (r, c, ev)"
  shows "\<exists>ctx'. c = Some ctx' \<and> length (stream_buffer ctx') < 32000
           \<and> (ev \<noteq> [] \<longrightarrow> length (stream_buffer ctx') = 8000)"
proof (cases "p \<noteq> None \<and> 0 < audio_len \<and> streaming ctx")
  case False
  with assms(2,4) show ?thesis
    by (auto simp: whisper_bridge_stream_push_def split: option.splits if_splits)
next
  case True
  then obtain mem where p: "p = Some mem" by auto
  let ?b = "stream_buffer ctx @ read_block mem audio_len"
  have "length ?b < 2 ^ 31"
    using assms(2,3) True by auto
  then have t: "to_int32 (length ?b) = int (length ?b)"
    by (rule to_int32_small)
  show ?thesis
    using assms(1,4) True p t
    by (auto simp: whisper_bridge_stream_push_def Let_def split: if_splits prod.splits)
qed

text \<open>The text loop of \<^verbatim>\<open>make_result\<close>, started on a non-empty and on an empty text.\<close>

lemma join_with_space_Cons:
  "join_with_space (t # ts) = t @ concat (map (\<lambda>u. '' '' @ u) ts)"
  by (induction ts arbitrary: t) simp_all

lemma join_segments_nonempty:
  "acc \<noteq> [] \<Longrightarrow>
   join_segments eng w acc is
   = acc @ concat (map (\<lambda>u. '' '' @ u)
                    (List.map_filter (whisper_full_get_segment_text eng w) is))"
  by (induction "is" arbitrary: acc) (auto split: option.splits)

lemma join_segments_empty:
  "join_segments eng w [] is
   = join_with_space (dropWhile (\<lambda>t. t = [])
       (List.map_filter (whisper_full_get_segment_text eng w) is))"
proof (induction "is")
  case Nil
  then show ?case by simp
next
  case (Cons i "is")
  show ?case
  proof (cases "whisper_full_get_segment_text eng w i")
    case None
    with Cons show ?thesis by simp
  next
    case (Some t)
    show ?thesis
    proof (cases "t = []")
      case True
      with Some Cons show ?thesis by simp
    next
      case False
      with Some show ?thesis
        by (simp add: join_segments_nonempty join_with_space_Cons)
    qed
  qed
qed

lemma loop_indices_2: "loop_indices 2 = [0, 1]"
  by (simp add: loop_indices_def upt_rec)

text \<open>Rounding leaves a representable value as it is.\<close>

lemma round_half_even_of_int [simp]: "round_half_even (of_int m) = m"
  by (simp add: round_half_even_def)

lemma ulp_search_finds:
  assumes "\<bar>q\<bar> < 2 powi (k + 24)" and "j \<le> k" and "k < j + int n"
  shows "\<exists>j'. ulp_search q j n = Some j' \<and> j \<le> j' \<and> j' \<le> k"
  using assms
proof (induction n arbitrary: j)
  case 0
  then show ?case by simp
next
  case (Suc n)
  show ?case
  proof (cases "\<bar>q\<bar> < 2 powi (j + 24)")
    case True
    with Suc.prems show ?thesis by simp
  next
    case False
    with Suc.prems have "j \<noteq> k" by auto
    with Suc.prems have "j + 1 \<le> k" "k < (j + 1) + int n" by simp_all
    from Suc.IH [OF Suc.prems(1) this] False show ?thesis by auto
  qed
qed

lemma f32_round_exact:
  assumes "\<bar>m\<bar> < 2 ^ 24" and "- 149 \<le> k" and "k \<le> 104"
  shows "f32_round (of_int m * 2 powi k) = Finite (of_int m * 2 powi k)"
proof -
  let ?q = "of_int m * 2 powi k :: rat"
  have "\<bar>?q\<bar> = of_int \<bar>m\<bar> * 2 powi k"
    by (simp add: abs_mult)
  also have "\<dots> < 2 ^ 24 * 2 powi k"
  proof -
    have "(of_int \<bar>m\<bar> :: rat) < of_int (2 ^ 24)"
      using assms(1) by (simp only: of_int_less_iff)
    then show ?thesis by simp
  qed
  also have "\<dots> = 2 powi (k + 24)"
    by (simp add: power_int_add)
  finally have bound: "\<bar>?q\<bar> < 2 powi (k + 24)" .
  from ulp_search_finds [OF bound, of "- 149" 254] assms(2,3)
  obtain j where j: "ulp_search ?q (- 149) 254 = Some j" "- 149 \<le> j" "j \<le> k"
    by auto
  have "?q / 2 powi j = of_int m * 2 powi (k - j)"
    by (simp add: power_int_diff)
  also have "\<dots> = of_int (m * 2 ^ nat (k - j))"
    using j(3) by (simp add: power_int_def)
  finally have whole: "?q / 2 powi j = of_int (m * 2 ^ nat (k - j))" .
  have "of_int (m * 2 ^ nat (k - j)) * 2 powi j = (?q / 2 powi j) * 2 powi j"
    by (simp only: whole)
  also have "\<dots> = ?q"
    by simp
  finally have undo: "of_int (m * 2 ^ nat (k - j)) * 2 powi j = ?q" .
  have "(2::rat) powi (k + 24) \<le> 2 powi 128"
    using assms(3) by (intro power_int_increasing) simp_all
  with bound have small: "\<bar>?q\<bar> < 2 powi 128" by simp
  show ?thesis
    unfolding f32_round_def j(1) option.case Let_def whole round_half_even_of_int undo
    using small by simp
qed

lemma pcm16_sample:
  "f32_div (f32_of_int (sint (v :: 16 word))) (Finite 32768) = Finite (of_int (sint v) / 32768)"
proof -
  have lo: "- (2 ^ 15) \<le> sint v" and hi: "sint v < 2 ^ 15"
    using sint_ge [of v] sint_lt [of v] by simp_all
  then have small: "\<bar>sint v\<bar> < 2 ^ 24" by simp
  have "f32_round (of_int (sint v) * 2 powi 0) = Finite (of_int (sint v) * 2 powi 0)"
    using small by (rule f32_round_exact) simp_all
  then have conv: "f32_of_int (sint v) = Finite (of_int (sint v))"
    by (simp add: f32_of_int_def)
  have "f32_round (of_int (sint v) * 2 powi (- 15)) = Finite (of_int (sint v) * 2 powi (- 15))"
    using small by (rule f32_round_exact) simp_all
  moreover have "(of_int (sint v) :: rat) * 2 powi (- 15) = of_int (sint v) / 32768"
    by (simp add: power_int_minus field_simps)
  ultimately have "f32_round (of_int (sint v) / 32768) = Finite (of_int (sint v) / 32768)"
    by simp
  with conv show ?thesis by (simp add: f32_div_def)
qed

lemma pcm16_loop_at:
  "pcm16_loop src dst is i
   = (if i \<in> set is then f32_div (f32_of_int (sint (src i))) (Finite 32768) else dst i)"
  by (induction "is" arbitrary: dst) auto

section \<open>Rejected pushes\<close>

text \<open>
  Claim C6. A push on a session that is not streaming returns the failure status
  \<open>-1\<close> and leaves the whole context, the accumulator included, as it was; a push
  with a null sample pointer or a sample count that is not positive returns \<open>-1\<close>
  and changes nothing, whatever the session. No inference runs and no callback is
  called in either case. (The bridge reports both failures by the same status.)
\<close>

theorem push_rejected:
  "(\<not> streaming ctx \<longrightarrow>
      whisper_bridge_stream_push eng (Some ctx) audio_data audio_len = (-1, Some ctx, []))
   \<and> (audio_data = None \<or> audio_len \<le> 0 \<longrightarrow>
      whisper_bridge_stream_push eng ctxo audio_data audio_len = (-1, ctxo, []))"
  by (auto simp: whisper_bridge_stream_push_def split: option.splits)

theorem push_rejected_witness:
  "whisper_bridge_stream_push (scripted_engine 0 []) (Some (new_context [])) (Some silence) 100
     = (-1, Some (new_context []), [])
   \<and> whisper_bridge_stream_push (scripted_engine 0 [])
        (Some ((new_context [])\<lparr>streaming := True\<rparr>)) (Some silence) 0
     = (-1, Some ((new_context [])\<lparr>streaming := True\<rparr>), [])"
  using push_rejected [of "new_context []" "scripted_engine 0 []" "Some silence" 100]
    push_rejected [where eng = "scripted_engine 0 []" and audio_data = "Some silence"
      and audio_len = 0 and ctxo = "Some ((new_context [])\<lparr>streaming := True\<rparr>)"]
  by (simp add: new_context_def)

section \<open>Pushes below the step\<close>

text \<open>
  Claim C2. On a session that is streaming with an empty accumulator (as
  \<^verbatim>\<open>whisper_bridge_stream_start\<close> leaves it) and the step of 32000 samples, take any
  sequence of pushes handing over fewer than 32000 samples in total. After each of
  them (after the first \<open>k\<close> pushes, for every \<open>k\<close>) no inference has run and no callback
  has been called (the event list is empty), and the accumulator is exactly the
  concatenation of the blocks pushed so far: nothing was cut, and its length is the
  number of samples pushed.
\<close>

theorem pushes_below_threshold_only_append:
  assumes "streaming ctx" and "stream_buffer ctx = []"
    and "stream_step_samples ctx = 32000"
    and "length (concat (map pushed_block pns)) < 32000"
    and "k \<le> length pns"
  shows "stream_push_all eng (Some ctx) (take k pns)
         = (map push_status (take k pns),
            Some (ctx\<lparr>stream_buffer := concat (map pushed_block (take k pns))\<rparr>), [])"
proof -
  have "length (concat (map pushed_block (take k pns)))
        \<le> length (concat (map pushed_block (take k pns @ drop k pns)))"
    unfolding map_append concat_append length_append by simp
  then have "length (concat (map pushed_block (take k pns))) < 32000"
    using assms(4) by simp
  then show ?thesis
    using assms(1-3) push_all_below_threshold [of ctx "take k pns" eng] by simp
qed

theorem pushes_below_threshold_only_append_witness:
  "stream_push_all (scripted_engine 0 [Some ''a'']) (Some started_context)
       [(Some silence, 16000), (None, 5), (Some silence, 15999)]
   = ([0, -1, 0], Some (started_context\<lparr>stream_buffer := replicate 31999 0\<rparr>), [])"
proof -
  let ?pns = "[(Some silence, 16000), (None, 5), (Some silence, 15999)]"
  have h1: "streaming started_context" and h2: "stream_buffer started_context = []"
    and h3: "stream_step_samples started_context = 32000"
    by (simp_all add: started_context_def new_context_def)
  have h4: "length (concat (map pushed_block ?pns)) < 32000"
    by (simp add: pushed_block_def)
  have h5: "3 \<le> length ?pns" by simp
  from pushes_below_threshold_only_append [OF h1 h2 h3 h4 h5]
  show ?thesis
    by (simp add: pushed_block_def push_status_def read_block_silence replicate_add [symmetric])
qed

section \<open>A flushing push\<close>

text \<open>
  Claim C1, as the bridge implements it. On a streaming session with its callback
  installed and the step of 32000 samples, a push that brings the accumulator to at
  least 32000 samples, and to fewer than \<open>2 ^ 31\<close>, returns 0 after exactly one
  inference call, made in single-segment mode on the whole accumulator (old samples
  and new block); if the inference succeeds the callback is then called once for each
  segment whose text is not null, in segment order, and not at all if it fails;
  afterwards the accumulator holds its last 8000 samples, which is
  \<open>min 8000 (length before the cut)\<close>.
\<close>

theorem flush_on_threshold:
  assumes "streaming ctx" and "stream_callback ctx = Some f" and "0 < audio_len"
    and "stream_step_samples ctx = 32000"
    and "buf = stream_buffer ctx @ read_block mem audio_len"
    and "32000 \<le> length buf" and "length buf < 2 ^ 31"
    and "whisper_full eng (wctx ctx) ((make_params ctx)\<lparr>single_segment := True\<rparr>) buf
           (int (length buf)) = (ret, w')"
  shows "whisper_bridge_stream_push eng (Some ctx) (Some mem) audio_len
         = (0, Some (ctx\<lparr>wctx := w', stream_buffer := drop (length buf - 8000) buf\<rparr>),
            Inference ((make_params ctx)\<lparr>single_segment := True\<rparr>) buf (int (length buf))
            # (if ret = 0
               then map (\<lambda>t. Callback f t 0 (stream_user_data ctx))
                      (List.map_filter (whisper_full_get_segment_text eng w')
                         (loop_indices (whisper_full_n_segments eng w')))
               else []))
         \<and> length (drop (length buf - 8000) buf) = min 8000 (length buf)"
proof -
  have t: "to_int32 (length buf) = int (length buf)"
    using assms(7) by (rule to_int32_small)
  have trig: "32000 \<le> to_int32 (length buf)"
    using assms(6) t by simp
  from push_flush_general [OF assms(1,3,4,5) trig] assms(8) t assms(2,6)
  show ?thesis by (simp add: fire_callbacks_Some)
qed

theorem flush_on_threshold_witness:
  "whisper_bridge_stream_push (scripted_engine 0 [Some ''a'', None, Some ''b''])
       (Some (started_context\<lparr>stream_buffer := replicate 16000 0\<rparr>)) (Some silence) 16001
   = (0, Some (started_context\<lparr>wctx := [Some ''a'', None, Some ''b''],
                 stream_buffer := replicate 8000 0\<rparr>),
      [Inference ((make_params started_context)\<lparr>single_segment := True\<rparr>)
         (replicate 32001 0) 32001,
       Callback 1 ''a'' 0 (Some 2), Callback 1 ''b'' 0 (Some 2)])"
proof -
  let ?c = "started_context\<lparr>stream_buffer := replicate 16000 (0::rat)\<rparr>"
  have h1: "streaming ?c" and h2: "stream_callback ?c = Some 1"
    and h4: "stream_step_samples ?c = 32000"
    by (simp_all add: started_context_def new_context_def)
  have h3: "(0::int) < 16001" by simp
  have h5: "replicate 32001 (0::rat) = stream_buffer ?c @ read_block silence 16001"
    by (simp add: read_block_silence replicate_add [symmetric])
  have h6: "32000 \<le> length (replicate 32001 (0::rat))"
    and h7: "length (replicate 32001 (0::rat)) < 2 ^ 31" by simp_all
  have h8: "whisper_full (scripted_engine 0 [Some ''a'', None, Some ''b'']) (wctx ?c)
      ((make_params ?c)\<lparr>single_segment := True\<rparr>) (replicate 32001 0)
      (int (length (replicate 32001 (0::rat)))) = (0, [Some ''a'', None, Some ''b''])"
    by (simp add: scripted_engine_def)
  have idx: "loop_indices 3 = [0, 1, 2]"
    by (simp add: loop_indices_def upt_rec)
  from flush_on_threshold [OF h1 h2 h3 h4 h5 h6 h7 h8]
  show ?thesis
    by (simp add: scripted_engine_def idx make_params_def started_context_def new_context_def)
qed

text \<open>
  The claim as written fails where the engine reports a segment whose text is null:
  one segment is produced, the inference succeeds, and the callback is not called.
\<close>

theorem flush_null_text_counterexample:
  "whisper_bridge_stream_push (scripted_engine 0 [None])
       (Some started_context) (Some silence) 32000
   = (0, Some (started_context\<lparr>wctx := [None], stream_buffer := replicate 8000 0\<rparr>),
      [Inference ((make_params started_context)\<lparr>single_segment := True\<rparr>)
         (replicate 32000 0) 32000])
   \<and> whisper_full_n_segments (scripted_engine 0 [None]) [None] = 1"
  by (simp add: whisper_bridge_stream_push_def Let_def scripted_engine_def read_block_silence
      started_context_def new_context_def loop_indices_def)

section \<open>A flush whose inference fails\<close>

text \<open>
  Claim C3. When a push passes the size test (it triggers a flush) and the engine
  returns a status other than 0, the push still returns 0, its only event is the
  inference call (no callback), the accumulator is cut to its last 8000 samples, and
  the session is still streaming: any later push of at least 24000 samples (and fewer
  than \<open>2 ^ 31 - 8000\<close>) runs the inference again, on the 8000 samples kept and the
  new block.
\<close>

theorem failed_flush_still_truncates:
  assumes "streaming ctx" and "0 < audio_len"
    and "stream_step_samples ctx = 32000"
    and "buf = stream_buffer ctx @ read_block mem audio_len"
    and "stream_step_samples ctx \<le> to_int32 (length buf)"
    and "whisper_full eng (wctx ctx) ((make_params ctx)\<lparr>single_segment := True\<rparr>) buf
           (to_int32 (length buf)) = (ret, w')"
    and "ret \<noteq> 0"
    and "ctx' = ctx\<lparr>wctx := w', stream_buffer := drop (length buf - 8000) buf\<rparr>"
  shows "whisper_bridge_stream_push eng (Some ctx) (Some mem) audio_len
         = (0, Some ctx',
            [Inference ((make_params ctx)\<lparr>single_segment := True\<rparr>) buf (to_int32 (length buf))])
         \<and> length (stream_buffer ctx') = 8000
         \<and> streaming ctx'
         \<and> (\<forall>mem2 len2. 24000 \<le> len2 \<and> len2 < 2 ^ 31 - 8000 \<longrightarrow>
               (\<exists>c evs. whisper_bridge_stream_push eng (Some ctx') (Some mem2) len2
                  = (0, c, Inference ((make_params ctx')\<lparr>single_segment := True\<rparr>)
                             (stream_buffer ctx' @ read_block mem2 len2) (8000 + len2) # evs)))"
proof -
  have trig: "32000 \<le> to_int32 (length buf)"
    using assms(3,5) by simp
  have first: "whisper_bridge_stream_push eng (Some ctx) (Some mem) audio_len
         = (0, Some ctx',
            [Inference ((make_params ctx)\<lparr>single_segment := True\<rparr>) buf (to_int32 (length buf))])"
    using push_flush_general [OF assms(1-4) trig assms(6)] assms(7,8) by simp
  have len: "length (stream_buffer ctx') = 8000"
    using to_int32_ge_length [OF trig] assms(8) by simp
  have str: "streaming ctx'" and step: "stream_step_samples ctx' = 32000"
    using assms(1,3,8) by simp_all
  have later: "\<exists>c evs. whisper_bridge_stream_push eng (Some ctx') (Some mem2) len2
                  = (0, c, Inference ((make_params ctx')\<lparr>single_segment := True\<rparr>)
                             (stream_buffer ctx' @ read_block mem2 len2) (8000 + len2) # evs)"
    if "24000 \<le> len2 \<and> len2 < 2 ^ 31 - 8000" for mem2 len2
  proof -
    let ?b = "stream_buffer ctx' @ read_block mem2 len2"
    have l: "length ?b = 8000 + nat len2" using len by simp
    then have "length ?b < 2 ^ 31" using that by auto
    then have t: "to_int32 (length ?b) = 8000 + len2"
      using to_int32_small [of "length ?b"] l that by simp
    obtain r w2 where w: "whisper_full eng (wctx ctx')
        ((make_params ctx')\<lparr>single_segment := True\<rparr>) ?b (to_int32 (length ?b)) = (r, w2)"
      by (cases "whisper_full eng (wctx ctx')
        ((make_params ctx')\<lparr>single_segment := True\<rparr>) ?b (to_int32 (length ?b))")
    have "0 < len2" "32000 \<le> to_int32 (length ?b)" using that t by simp_all
    from push_flush_general [OF str this(1) step refl this(2) w] t
    show ?thesis by simp
  qed
  from first len str later show ?thesis by blast
qed

theorem failed_flush_still_truncates_witness:
  "whisper_bridge_stream_push (scripted_engine 1 [Some ''x'']) (Some started_context)
       (Some silence) 32000
   = (0, Some (started_context\<lparr>wctx := [Some ''x''], stream_buffer := replicate 8000 0\<rparr>),
      [Inference ((make_params started_context)\<lparr>single_segment := True\<rparr>)
         (replicate 32000 0) 32000])"
proof -
  have h1: "streaming started_context" and h3: "stream_step_samples started_context = 32000"
    by (simp_all add: started_context_def new_context_def)
  have h2: "(0::int) < 32000" by simp
  have h4: "replicate 32000 (0::rat) = stream_buffer started_context @ read_block silence 32000"
    by (simp add: started_context_def new_context_def read_block_silence)
  have h5: "stream_step_samples started_context \<le> to_int32 (length (replicate 32000 (0::rat)))"
    by (simp add: h3)
  have h6: "whisper_full (scripted_engine 1 [Some ''x'']) (wctx started_context)
      ((make_params started_context)\<lparr>single_segment := True\<rparr>) (replicate 32000 0)
      (to_int32 (length (replicate 32000 (0::rat)))) = (1, [Some ''x''])"
    by (simp add: scripted_engine_def)
  have h7: "(1::int) \<noteq> 0" by simp
  from failed_flush_still_truncates [OF h1 h2 h3 h4 h5 h6 h7 refl]
  show ?thesis by simp
qed

section \<open>Setting the language\<close>

text \<open>
  Claim C4. On every session, setting the language to \<open>auto\<close> returns 0 and stores
  \<open>auto\<close>, under which the inference parameters ask for language detection and name
  no language; for every other code that the engine's table does not know (its id is
  negative), the call returns \<open>-1\<close> and the context, its language included, is as
  before.
\<close>

theorem set_language_auto_or_unknown:
  "whisper_bridge_set_language eng (Some ctx) (Some ''auto'')
     = (0, Some (ctx\<lparr>language := ''auto''\<rparr>))
   \<and> detect_language (make_params (ctx\<lparr>language := ''auto''\<rparr>))
   \<and> p_language (make_params (ctx\<lparr>language := ''auto''\<rparr>)) = None
   \<and> (l \<noteq> ''auto'' \<and> whisper_lang_id eng l < 0 \<longrightarrow>
        whisper_bridge_set_language eng (Some ctx) (Some l) = (-1, Some ctx))"
  by (simp add: whisper_bridge_set_language_def make_params_def)

theorem set_language_auto_or_unknown_witness:
  "whisper_bridge_set_language (scripted_engine 0 [])
       (Some ((new_context [])\<lparr>language := ''en''\<rparr>)) (Some ''xx'')
     = (-1, Some ((new_context [])\<lparr>language := ''en''\<rparr>))
   \<and> whisper_bridge_set_language (scripted_engine 0 [])
       (Some ((new_context [])\<lparr>language := ''en''\<rparr>)) (Some ''auto'')
     = (0, Some (new_context []))"
  using set_language_auto_or_unknown [of "scripted_engine 0 []"
      "(new_context [])\<lparr>language := ''en''\<rparr>" "''xx''"]
  by (simp add: scripted_engine_def new_context_def)

section \<open>Stopping\<close>

text \<open>
  Claim C5. On every session, stop leaves \<open>streaming\<close> false, the accumulator empty
  and the callback and its user data null, whatever happens in between; and when the
  accumulator was empty, or the final inference call returns a status other than 0,
  the result is the empty one (empty text, no segment, language id \<open>-1\<close>, duration 0).
\<close>

theorem stop_clears_streaming_state:
  assumes "whisper_bridge_stream_stop eng (Some ctx) elapsed = (res, ctxo', ev)"
  shows "\<exists>ctx'. ctxo' = Some ctx' \<and> \<not> streaming ctx' \<and> stream_buffer ctx' = []
           \<and> stream_callback ctx' = None \<and> stream_user_data ctx' = None
           \<and> (stream_buffer ctx = []
                \<or> fst (whisper_full eng (wctx ctx) (make_params ctx) (stream_buffer ctx)
                         (to_int32 (length (stream_buffer ctx)))) \<noteq> 0
               \<longrightarrow> res = empty_result)"
  using assms
  by (auto simp: whisper_bridge_stream_stop_def Let_def make_result_def make_params_def
      split: if_splits prod.splits)

theorem stop_clears_streaming_state_witness:
  "whisper_bridge_stream_stop (scripted_engine 1 [Some ''x''])
       (Some (started_context\<lparr>stream_buffer := [1, 2, 3]\<rparr>)) 7
   = (\<lparr> text = [], segments = 0, lang_id = -1, lang_prob = 0, duration_ms = 0 \<rparr>,
      Some (new_context [Some ''x'']),
      [Inference (make_params started_context) [1, 2, 3] 3])
   \<and> whisper_bridge_stream_stop (scripted_engine 0 [Some ''x'']) (Some started_context) 7
   = (\<lparr> text = [], segments = 0, lang_id = -1, lang_prob = 0, duration_ms = 0 \<rparr>,
      Some (new_context []), [])"
proof -
  have a: "whisper_bridge_stream_stop (scripted_engine 1 [Some ''x''])
       (Some (started_context\<lparr>stream_buffer := [1, 2, 3]\<rparr>)) 7
     = (empty_result, Some (new_context [Some ''x'']),
        [Inference (make_params started_context) [1, 2, 3] 3])"
    by (simp add: whisper_bridge_stream_stop_def Let_def scripted_engine_def
        started_context_def new_context_def make_params_def to_int32_def)
  have b: "whisper_bridge_stream_stop (scripted_engine 0 [Some ''x'']) (Some started_context) 7
     = (empty_result, Some (new_context []), [])"
    by (simp add: whisper_bridge_stream_stop_def Let_def started_context_def new_context_def)
  from stop_clears_streaming_state [OF a] stop_clears_streaming_state [OF b] a b
  show ?thesis by (simp add: empty_result_def)
qed

section \<open>Initialisation\<close>




section \<open>The size of the accumulator\<close>

text \<open>
  Claim C7 at a sequence of pushes on which the code leaves the bound. The size test
  of push reads the accumulator's size as a 32-bit signed integer. After pushes of 1,
  2147483647 and 1 samples on a freshly started session the accumulator holds
  2147483649 samples, all three pushes returned 0 and no inference has run: from
  \<open>2 ^ 31\<close> samples up to \<open>2 ^ 32\<close> the size read is negative, and the flush is
  skipped. The size after the third push is neither 0 nor below 32000 + 1.
\<close>

theorem wrapped_size_never_flushes:
  "stream_push_all (scripted_engine 0 [Some ''a'']) (Some started_context)
       [(Some silence, 1), (Some silence, 2147483647), (Some silence, 1)]
   = ([0, 0, 0],
      Some (started_context\<lparr>stream_buffer :=
        read_block silence 1 @ read_block silence 2147483647 @ read_block silence 1\<rparr>), [])
   \<and> length (read_block silence 1 @ read_block silence 2147483647 @ read_block silence 1)
       = 2147483649"
  by (simp add: whisper_bridge_stream_push_def Let_def
      started_context_def new_context_def to_int32_def)

section \<open>The text of a result\<close>

text \<open>
  Claim C10, as the bridge implements it. After a successful batch transcription,
  and after a stop whose final inference succeeds, the text of the result is the
  non-null segment texts in segment order, joined with one space between neighbours
  once the empty texts at the front have been dropped: \<^verbatim>\<open>make_result\<close> puts a space
  before a text only when the text built so far is not empty. The same text is what
  the session's \<open>last_result_text\<close> holds afterwards, whatever it held before.
\<close>

theorem result_text_joined:
  "(0 < audio_len
    \<and> whisper_full eng (wctx ctx) (make_params ctx) (read_block mem audio_len) audio_len = (0, w')
    \<longrightarrow> (\<exists>res ctx' ev.
          whisper_bridge_transcribe eng (Some ctx) (Some mem) audio_len elapsed
            = (res, Some ctx', ev)
          \<and> text res = join_with_space (dropWhile (\<lambda>t. t = []) (segment_texts eng w'))
          \<and> last_result_text ctx' = text res))
   \<and> (stream_buffer ctx \<noteq> []
    \<and> whisper_full eng (wctx ctx) (make_params ctx) (stream_buffer ctx)
          (to_int32 (length (stream_buffer ctx))) = (0, w')
    \<longrightarrow> (\<exists>res ctx' ev.
          whisper_bridge_stream_stop eng (Some ctx) elapsed = (res, Some ctx', ev)
          \<and> text res = join_with_space (dropWhile (\<lambda>t. t = []) (segment_texts eng w'))
          \<and> last_result_text ctx' = text res))"
  by (simp add: whisper_bridge_transcribe_def whisper_bridge_stream_stop_def Let_def
      make_result_def make_params_def join_segments_empty segment_texts_def)

theorem result_text_joined_witness:
  "text (fst (whisper_bridge_transcribe (scripted_engine 0 [Some ''a'', None, Some ''b''])
                (Some (new_context [])) (Some silence) 2 5)) = ''a b''
   \<and> text (fst (whisper_bridge_stream_stop (scripted_engine 0 [Some ''a'', None, Some ''b''])
                (Some (started_context\<lparr>stream_buffer := [0, 0]\<rparr>)) 5)) = ''a b''"
proof -
  let ?E = "scripted_engine 0 [Some ''a'', None, Some ''b'']"
  let ?W = "[Some ''a'', None, Some ''b'']"
  let ?c = "started_context\<lparr>stream_buffer := [0, 0]\<rparr>"
  have idx: "loop_indices 3 = [0, 1, 2]"
    by (simp add: loop_indices_def upt_rec)
  have j: "join_with_space (dropWhile (\<lambda>t. t = []) (segment_texts ?E ?W)) = ''a b''"
    by (simp add: segment_texts_def scripted_engine_def idx)
  have h1: "0 < (2::int) \<and> whisper_full ?E (wctx (new_context []))
      (make_params (new_context [])) (read_block silence 2) 2 = (0, ?W)"
    by (simp add: scripted_engine_def)
  have h2: "stream_buffer ?c \<noteq> [] \<and> whisper_full ?E (wctx ?c) (make_params ?c)
      (stream_buffer ?c) (to_int32 (length (stream_buffer ?c))) = (0, ?W)"
    by (simp add: scripted_engine_def)
  note inst = result_text_joined [where eng = ?E and mem = silence and audio_len = 2
      and w' = ?W and elapsed = 5]
  from inst [where ctx = "new_context []", THEN conjunct1, THEN mp, OF h1]
  obtain res ctx' ev where
    "whisper_bridge_transcribe ?E (Some (new_context [])) (Some silence) 2 5
     = (res, Some ctx', ev)"
    "text res = join_with_space (dropWhile (\<lambda>t. t = []) (segment_texts ?E ?W))"
    by blast
  with j have a:
    "text (fst (whisper_bridge_transcribe ?E (Some (new_context [])) (Some silence) 2 5))
     = ''a b''"
    by simp
  from inst [where ctx = ?c, THEN conjunct2, THEN mp, OF h2]
  obtain res ctx' ev where
    "whisper_bridge_stream_stop ?E (Some ?c) 5 = (res, Some ctx', ev)"
    "text res = join_with_space (dropWhile (\<lambda>t. t = []) (segment_texts ?E ?W))"
    by blast
  with j have b: "text (fst (whisper_bridge_stream_stop ?E (Some ?c) 5)) = ''a b''"
    by simp
  from a b show ?thesis by simp
qed

text \<open>
  The claim as written, a space between any two neighbouring non-null texts, fails
  when the first text is empty: an empty segment text followed by the text \<open>a\<close> gives
  the result text \<open>a\<close>, and joining the two with a space gives a space followed by
  \<open>a\<close>.
\<close>

theorem result_text_leading_empty_counterexample:
  "text (fst (whisper_bridge_transcribe (scripted_engine 0 [Some [], Some ''a''])
                (Some (new_context [])) (Some silence) 1 0)) = ''a''
   \<and> join_with_space (segment_texts (scripted_engine 0 [Some [], Some ''a''])
                        [Some [], Some ''a'']) = '' a''"
  by (simp add: whisper_bridge_transcribe_def Let_def make_result_def scripted_engine_def
      new_context_def segment_texts_def loop_indices_2)

section \<open>PCM conversion\<close>

text \<open>
  Claim C9. For non-null source and destination and a positive count \<open>n\<close>, the
  conversion writes at every index \<open>i\<close> below \<open>n\<close> the finite single-precision value
  that is exactly the source sample divided by 32768: neither the conversion of the
  16-bit integer to \<^verbatim>\<open>float\<close> nor the division rounds, and nothing is clamped. The
  destination is unchanged from index \<open>n\<close> on.
\<close>

theorem pcm16_to_f32_exact:
  assumes "0 < n"
  shows "\<exists>out. whisper_bridge_pcm16_to_f32 (Some src) (Some dst) n = Some out
           \<and> (\<forall>i. i < nat n \<longrightarrow> out i = Finite (of_int (sint (src i)) / 32768))
           \<and> (\<forall>i. nat n \<le> i \<longrightarrow> out i = dst i)"
  using assms by (simp add: whisper_bridge_pcm16_to_f32_def pcm16_loop_at pcm16_sample)

theorem pcm16_to_f32_exact_witness:
  "\<exists>out. whisper_bridge_pcm16_to_f32 (Some pcm_block) (Some unwritten) 3 = Some out
     \<and> out 0 = Finite 0 \<and> out 1 = Finite (32767 / 32768) \<and> out 2 = Finite (- 1)
     \<and> out 3 = NotFinite"
proof -
  have "(0::int) < 3" by simp
  from pcm16_to_f32_exact [OF this, of pcm_block unwritten]
  obtain out where o: "whisper_bridge_pcm16_to_f32 (Some pcm_block) (Some unwritten) 3 = Some out"
    "\<forall>i. i < nat 3 \<longrightarrow> out i = Finite (of_int (sint (pcm_block i)) / 32768)"
    "\<forall>i. nat 3 \<le> i \<longrightarrow> out i = unwritten i"
    by blast
  from o(2) have "out 0 = Finite (of_int (sint (pcm_block 0)) / 32768)"
    "out 1 = Finite (of_int (sint (pcm_block 1)) / 32768)"
    "out 2 = Finite (of_int (sint (pcm_block 2)) / 32768)"
    by simp_all
  moreover from o(3) have "out 3 = unwritten 3" by simp
  ultimately show ?thesis
    using o(1) by (simp add: pcm_block_def unwritten_def)
qed

end
